theory Spec2Isabelle
  imports Complex_Main "HOL-Library.Word"
begin

section \<open>Images and pixel arrays\<close>

text \<open>
  The orchestration of \<^verbatim>\<open>app.py\<close> moves three kinds of values around: PIL images,
  numpy arrays of bytes, and the dictionaries exchanged with the external models.

  A PIL image is its mode, its size and its bytes (row after row, the bands of a pixel
  side by side). The model covers the 8-bit modes that \<^verbatim>\<open>np.array\<close> and
  \<^verbatim>\<open>Image.fromarray\<close> carry into each other: grey (\<open>L\<close>), grey with alpha (\<open>LA\<close>),
  colour (\<open>RGB\<close>) and colour with alpha (\<open>RGBA\<close>).
\<close>

datatype mode = L | LA | RGB | RGBA

fun bands :: "mode \<Rightarrow> nat" where
  "bands L = 1"
| "bands LA = 2"
| "bands RGB = 3"
| "bands RGBA = 4"

record image =
  mode :: mode
  width :: nat
  height :: nat
  pixels :: "8 word list"

text \<open>A numpy array of dtype \<^verbatim>\<open>uint8\<close>: its shape and its elements in row-major order.\<close>

record ndarray =
  shape :: "nat list"
  elems :: "8 word list"

text \<open>
  The exceptions of one call. \<open>AssertionError\<close> carries the message of the failed
  \<^verbatim>\<open>assert\<close>; \<open>DecodeError\<close> stands for whatever \<^verbatim>\<open>Image.open\<close> or the decoder raises
  on a file that is not an image; \<open>BackendError\<close> for whatever an external model raises.
\<close>

datatype error =
    AssertionError string
  | DecodeError
  | BackendError
  | KeyError string
  | IndexError
  | TypeError
  | UnboundLocalError string

text \<open>The failed assertion of line 40, with the message the source formats.\<close>

abbreviation InvalidTaskError :: "string \<Rightarrow> error" where
  "InvalidTaskError control_type \<equiv> AssertionError (''Invalid control type: '' @ control_type)"

text \<open>
  \<^verbatim>\<open>np.array(image)\<close>: height first, then width, then the bands; a single-band image gives
  a two-dimensional array.
\<close>

definition np_array :: "image \<Rightarrow> ndarray" where
  "np_array img =
     \<lparr>shape = (case mode img of
                 L \<Rightarrow> [height img, width img]
               | m \<Rightarrow> [height img, width img, bands m]),
      elems = pixels img\<rparr>"

text \<open>\<^verbatim>\<open>np.ones_like(a)\<close> and \<^verbatim>\<open>a * k\<close> on \<^verbatim>\<open>uint8\<close>: elementwise, the product modulo 256.\<close>

definition ones_like :: "ndarray \<Rightarrow> ndarray" where
  "ones_like a = \<lparr>shape = shape a, elems = map (\<lambda>_. 1) (elems a)\<rparr>"

definition times_scalar :: "ndarray \<Rightarrow> 8 word \<Rightarrow> ndarray" where
  "times_scalar a k = \<lparr>shape = shape a, elems = map (\<lambda>x. x * k) (elems a)\<rparr>"

text \<open>
  \<^verbatim>\<open>Image.fromarray(a)\<close> on a \<^verbatim>\<open>uint8\<close> array: the mode is read off the third dimension, the
  size is (second dimension, first dimension), a one-dimensional array being one pixel
  wide. A third dimension other than 2, 3 or 4 and every longer shape is refused; an array
  without a dimension has no size to read.
\<close>

definition fromarray :: "ndarray \<Rightarrow> error + image" where
  "fromarray a =
     (case shape a of
        [] \<Rightarrow> Inl IndexError
      | [h] \<Rightarrow> Inr \<lparr>mode = L, width = 1, height = h, pixels = elems a\<rparr>
      | [h, w] \<Rightarrow> Inr \<lparr>mode = L, width = w, height = h, pixels = elems a\<rparr>
      | [h, w, c] \<Rightarrow>
          (if c = 2 then Inr \<lparr>mode = LA, width = w, height = h, pixels = elems a\<rparr>
           else if c = 3 then Inr \<lparr>mode = RGB, width = w, height = h, pixels = elems a\<rparr>
           else if c = 4 then Inr \<lparr>mode = RGBA, width = w, height = h, pixels = elems a\<rparr>
           else Inl TypeError)
      | _ \<Rightarrow> Inl TypeError)"

text \<open>
  \<^verbatim>\<open>image.convert("RGB")\<close>: a grey value is repeated on the three bands, an alpha band is
  dropped; a colour image is copied as it is.
\<close>

fun l2rgb :: "8 word list \<Rightarrow> 8 word list" where
  "l2rgb (l # xs) = l # l # l # l2rgb xs"
| "l2rgb [] = []"

fun la2rgb :: "8 word list \<Rightarrow> 8 word list" where
  "la2rgb (l # a # xs) = l # l # l # la2rgb xs"
| "la2rgb _ = []"

fun rgba2rgb :: "8 word list \<Rightarrow> 8 word list" where
  "rgba2rgb (r # g # b # a # xs) = r # g # b # rgba2rgb xs"
| "rgba2rgb _ = []"

definition convert_RGB :: "image \<Rightarrow> image" where
  "convert_RGB img =
     \<lparr>mode = RGB, width = width img, height = height img,
      pixels = (case mode img of
                  L \<Rightarrow> l2rgb (pixels img)
                | LA \<Rightarrow> la2rgb (pixels img)
                | RGB \<Rightarrow> pixels img
                | RGBA \<Rightarrow> rgba2rgb (pixels img))\<rparr>"

section \<open>The external collaborators\<close>

text \<open>
  \<^verbatim>\<open>Image.open\<close> identifies a file and decodes its pixels only when they are first used:
  an opened file is \<open>Some img\<close> when its pixels decode to \<open>img\<close> and \<open>None\<close> when they do not.
\<close>

type_synonym image_file = "image option"

text \<open>The dictionary of line 70: four keys, each holding a one-element list.\<close>

record data =
  src_image :: "image list"
  ref_image :: "image list"
  mask :: "image list"
  densepose :: "image list"

text \<open>
  The models and helpers that \<^verbatim>\<open>app.py\<close> imports and calls, taken as parameters. A model
  that raises returns \<open>None\<close>. \<open>'b\<close> is the batch that \<^verbatim>\<open>LeffaTransform\<close> builds for the
  generation backend.
\<close>

record 'b env =
  Image_open :: "string \<Rightarrow> image_file option"
  resize_and_center :: "image_file \<Rightarrow> nat \<Rightarrow> nat \<Rightarrow> error + image"
  mask_predictor :: "image \<Rightarrow> string \<Rightarrow> (string \<rightharpoonup> image) option"
  predict_iuv :: "ndarray \<Rightarrow> ndarray option"
  predict_seg :: "ndarray \<Rightarrow> ndarray option"
  LeffaTransform :: "data \<Rightarrow> 'b option"
  vt_inference :: "'b \<Rightarrow> (string \<rightharpoonup> image list) option"
  pt_inference :: "'b \<Rightarrow> (string \<rightharpoonup> image list) option"

text \<open>Every call that leaves \<^verbatim>\<open>leffa_predict\<close> is recorded, with its arguments, in order.\<close>

datatype 'b event =
    Call_open string
  | Call_resize image_file nat nat
  | Call_mask_predictor image string
  | Call_predict_iuv ndarray
  | Call_predict_seg ndarray
  | Call_transform data
  | Call_vt_inference 'b
  | Call_pt_inference 'b

text \<open>
  A computation gives the calls it made and either the exception that ended it or its
  value. \<open>bind_io\<close> runs the rest only after a value, and appends its calls.
\<close>

type_synonym ('b, 'a) io = "'b event list \<times> (error + 'a)"

definition ret :: "'a \<Rightarrow> ('b, 'a) io" where
  "ret x = ([], Inr x)"

definition raise_io :: "error \<Rightarrow> ('b, 'a) io" where
  "raise_io e = ([], Inl e)"

definition call :: "'b event \<Rightarrow> error + 'a \<Rightarrow> ('b, 'a) io" where
  "call ev r = ([ev], r)"

definition bind_io :: "('b, 'a) io \<Rightarrow> ('a \<Rightarrow> ('b, 'c) io) \<Rightarrow> ('b, 'c) io" where
  "bind_io m f =
     (case m of
        (tr, Inl e) \<Rightarrow> (tr, Inl e)
      | (tr, Inr x) \<Rightarrow> (case f x of (tr', r) \<Rightarrow> (tr @ tr', r)))"

text \<open>A step inside \<^verbatim>\<open>leffa_predict\<close> that calls no collaborator but may raise.\<close>

definition no_call :: "error + 'a \<Rightarrow> ('b, 'a) io" where
  "no_call r = ([], r)"

definition or_raise :: "error \<Rightarrow> 'a option \<Rightarrow> error + 'a" where
  "or_raise e r = (case r of None \<Rightarrow> Inl e | Some x \<Rightarrow> Inr x)"

text \<open>\<^verbatim>\<open>d[key]\<close> on a dictionary, and the read of a local name that may not be bound.\<close>

definition getitem :: "(string \<rightharpoonup> 'a) \<Rightarrow> string \<Rightarrow> error + 'a" where
  "getitem d key = or_raise (KeyError key) (d key)"

definition local_var :: "string \<Rightarrow> 'a option \<Rightarrow> error + 'a" where
  "local_var name v = or_raise (UnboundLocalError name) v"

section \<open>The orchestration\<close>

text \<open>
  Lines 40 to 75 of \<^verbatim>\<open>leffa_predict\<close>: the check of the task, the two images opened and
  normalized, the mask, the two dense maps, and the dictionary assembled from them.
  \<open>src_resized\<close> is \<^verbatim>\<open>src_image\<close> after line 44; the pair bound after the mask step is
  \<^verbatim>\<open>src_image\<close> as line 52 may have rebound it, and \<^verbatim>\<open>mask\<close> when a branch bound it.
\<close>

definition leffa_data :: "'b env \<Rightarrow> string \<Rightarrow> string \<Rightarrow> string \<Rightarrow> ('b, data) io" where
  "leffa_data env src_image_path ref_image_path control_type =
    (if control_type \<notin> set [''virtual_tryon'', ''pose_transfer'']
     then raise_io (InvalidTaskError control_type)
     else
      bind_io (call (Call_open src_image_path)
                 (or_raise DecodeError (Image_open env src_image_path))) (\<lambda>src_file.
      bind_io (call (Call_open ref_image_path)
                 (or_raise DecodeError (Image_open env ref_image_path))) (\<lambda>ref_file.
      bind_io (call (Call_resize src_file 768 1024)
                 (resize_and_center env src_file 768 1024)) (\<lambda>src_resized.
      bind_io (call (Call_resize ref_file 768 1024)
                 (resize_and_center env ref_file 768 1024)) (\<lambda>ref_resized.
      let src_image_array = np_array src_resized;
          ref_image_array = np_array ref_resized
      in
      bind_io
        (if control_type = ''virtual_tryon'' then
           let src_rgb = convert_RGB src_resized in
           bind_io (call (Call_mask_predictor src_rgb ''upper'')
                      (or_raise BackendError (mask_predictor env src_rgb ''upper''))) (\<lambda>out.
           bind_io (no_call (getitem out ''mask'')) (\<lambda>m.
           ret (src_rgb, Some m)))
         else if control_type = ''pose_transfer'' then
           bind_io (no_call (fromarray (times_scalar (ones_like src_image_array) 255))) (\<lambda>m.
           ret (src_resized, Some m))
         else ret (src_resized, None)) (\<lambda>(src_final, mask_var).
      bind_io (call (Call_predict_iuv src_image_array)
                 (or_raise BackendError (predict_iuv env src_image_array))) (\<lambda>src_image_iuv_array.
      bind_io (call (Call_predict_seg src_image_array)
                 (or_raise BackendError (predict_seg env src_image_array))) (\<lambda>src_image_seg_array.
      bind_io (no_call (fromarray src_image_iuv_array)) (\<lambda>src_image_iuv.
      bind_io (no_call (fromarray src_image_seg_array)) (\<lambda>src_image_seg.
      let densepose_var =
            (if control_type = ''virtual_tryon'' then Some src_image_seg
             else if control_type = ''pose_transfer'' then Some src_image_iuv
             else None)
      in
      bind_io (no_call (local_var ''mask'' mask_var)) (\<lambda>mask_image.
      bind_io (no_call (local_var ''densepose'' densepose_var)) (\<lambda>densepose_image.
      ret \<lparr>src_image = [src_final], ref_image = [ref_resized],
           mask = [mask_image], densepose = [densepose_image]\<rparr>))))))))))))"

text \<open>
  The whole of \<^verbatim>\<open>leffa_predict\<close>: the dictionary goes through \<^verbatim>\<open>LeffaTransform\<close> to the
  backend of the task, and the first generated image is returned as an array.
\<close>

definition leffa_predict :: "'b env \<Rightarrow> string \<Rightarrow> string \<Rightarrow> string \<Rightarrow> ('b, ndarray) io" where
  "leffa_predict env src_image_path ref_image_path control_type =
     bind_io (leffa_data env src_image_path ref_image_path control_type) (\<lambda>d.
     bind_io (call (Call_transform d) (or_raise BackendError (LeffaTransform env d))) (\<lambda>batch.
     bind_io
       (if control_type = ''virtual_tryon'' then
          call (Call_vt_inference batch) (or_raise BackendError (vt_inference env batch))
        else if control_type = ''pose_transfer'' then
          call (Call_pt_inference batch) (or_raise BackendError (pt_inference env batch))
        else raise_io (UnboundLocalError ''inference'')) (\<lambda>output.
     bind_io (no_call (getitem output ''generated_image'')) (\<lambda>generated.
     bind_io (case generated of
                [] \<Rightarrow> raise_io IndexError
              | gen_image # _ \<Rightarrow> ret gen_image) (\<lambda>gen_image.
     ret (np_array gen_image))))))"

definition leffa_predict_vt :: "'b env \<Rightarrow> string \<Rightarrow> string \<Rightarrow> ('b, ndarray) io" where
  "leffa_predict_vt env src_image_path ref_image_path =
     leffa_predict env src_image_path ref_image_path ''virtual_tryon''"

definition leffa_predict_pt :: "'b env \<Rightarrow> string \<Rightarrow> string \<Rightarrow> ('b, ndarray) io" where
  "leffa_predict_pt env src_image_path ref_image_path =
     leffa_predict env src_image_path ref_image_path ''pose_transfer''"

section \<open>Invocations that share their models\<close>

text \<open>
  The predictors and the backends are objects of the module, built once (lines 16 to 36)
  and used by every invocation; what one call leaves in them the next call finds. To
  speak of two invocations, every collaborator is given a state \<open>'w\<close>, which a call reads
  and may change, and \<^verbatim>\<open>leffa_predict\<close> is written a second time with the state passed
  from each call to the next, in the order of the source.
\<close>

record ('b, 'w) world_env =
  Image_open_w :: "string \<Rightarrow> 'w \<Rightarrow> image_file option \<times> 'w"
  resize_and_center_w :: "image_file \<Rightarrow> nat \<Rightarrow> nat \<Rightarrow> 'w \<Rightarrow> (error + image) \<times> 'w"
  mask_predictor_w :: "image \<Rightarrow> string \<Rightarrow> 'w \<Rightarrow> (string \<rightharpoonup> image) option \<times> 'w"
  predict_iuv_w :: "ndarray \<Rightarrow> 'w \<Rightarrow> ndarray option \<times> 'w"
  predict_seg_w :: "ndarray \<Rightarrow> 'w \<Rightarrow> ndarray option \<times> 'w"
  LeffaTransform_w :: "data \<Rightarrow> 'w \<Rightarrow> 'b option \<times> 'w"
  vt_inference_w :: "'b \<Rightarrow> 'w \<Rightarrow> (string \<rightharpoonup> image list) option \<times> 'w"
  pt_inference_w :: "'b \<Rightarrow> 'w \<Rightarrow> (string \<rightharpoonup> image list) option \<times> 'w"

type_synonym ('b, 'w, 'a) io_w = "'w \<Rightarrow> ('b, 'a) io \<times> 'w"

definition pure_w :: "('b, 'a) io \<Rightarrow> ('b, 'w, 'a) io_w" where
  "pure_w m = (\<lambda>w. (m, w))"

definition call_w :: "'b event \<Rightarrow> ('w \<Rightarrow> (error + 'a) \<times> 'w) \<Rightarrow> ('b, 'w, 'a) io_w" where
  "call_w ev p = (\<lambda>w. case p w of (r, w') \<Rightarrow> (([ev], r), w'))"

definition or_raise_w :: "error \<Rightarrow> ('w \<Rightarrow> 'a option \<times> 'w) \<Rightarrow> 'w \<Rightarrow> (error + 'a) \<times> 'w" where
  "or_raise_w e p = (\<lambda>w. case p w of (r, w') \<Rightarrow> (or_raise e r, w'))"

definition bind_w :: "('b, 'w, 'a) io_w \<Rightarrow> ('a \<Rightarrow> ('b, 'w, 'c) io_w) \<Rightarrow> ('b, 'w, 'c) io_w" where
  "bind_w m f =
     (\<lambda>w. case m w of
        ((tr, Inl e), w') \<Rightarrow> ((tr, Inl e), w')
      | ((tr, Inr x), w') \<Rightarrow> (case f x w' of ((tr', r), w'') \<Rightarrow> ((tr @ tr', r), w'')))"

definition leffa_data_w ::
    "('b, 'w) world_env \<Rightarrow> string \<Rightarrow> string \<Rightarrow> string \<Rightarrow> ('b, 'w, data) io_w" where
  "leffa_data_w env src_image_path ref_image_path control_type =
    (if control_type \<notin> set [''virtual_tryon'', ''pose_transfer'']
     then pure_w (raise_io (InvalidTaskError control_type))
     else
      bind_w (call_w (Call_open src_image_path)
                (or_raise_w DecodeError (Image_open_w env src_image_path))) (\<lambda>src_file.
      bind_w (call_w (Call_open ref_image_path)
                (or_raise_w DecodeError (Image_open_w env ref_image_path))) (\<lambda>ref_file.
      bind_w (call_w (Call_resize src_file 768 1024)
                (resize_and_center_w env src_file 768 1024)) (\<lambda>src_resized.
      bind_w (call_w (Call_resize ref_file 768 1024)
                (resize_and_center_w env ref_file 768 1024)) (\<lambda>ref_resized.
      let src_image_array = np_array src_resized;
          ref_image_array = np_array ref_resized
      in
      bind_w
        (if control_type = ''virtual_tryon'' then
           let src_rgb = convert_RGB src_resized in
           bind_w (call_w (Call_mask_predictor src_rgb ''upper'')
                     (or_raise_w BackendError (mask_predictor_w env src_rgb ''upper''))) (\<lambda>out.
           bind_w (pure_w (no_call (getitem out ''mask''))) (\<lambda>m.
           pure_w (ret (src_rgb, Some m))))
         else if control_type = ''pose_transfer'' then
           bind_w (pure_w (no_call
                     (fromarray (times_scalar (ones_like src_image_array) 255)))) (\<lambda>m.
           pure_w (ret (src_resized, Some m)))
         else pure_w (ret (src_resized, None))) (\<lambda>(src_final, mask_var).
      bind_w (call_w (Call_predict_iuv src_image_array)
                (or_raise_w BackendError (predict_iuv_w env src_image_array)))
        (\<lambda>src_image_iuv_array.
      bind_w (call_w (Call_predict_seg src_image_array)
                (or_raise_w BackendError (predict_seg_w env src_image_array)))
        (\<lambda>src_image_seg_array.
      bind_w (pure_w (no_call (fromarray src_image_iuv_array))) (\<lambda>src_image_iuv.
      bind_w (pure_w (no_call (fromarray src_image_seg_array))) (\<lambda>src_image_seg.
      let densepose_var =
            (if control_type = ''virtual_tryon'' then Some src_image_seg
             else if control_type = ''pose_transfer'' then Some src_image_iuv
             else None)
      in
      bind_w (pure_w (no_call (local_var ''mask'' mask_var))) (\<lambda>mask_image.
      bind_w (pure_w (no_call (local_var ''densepose'' densepose_var))) (\<lambda>densepose_image.
      pure_w (ret \<lparr>src_image = [src_final], ref_image = [ref_resized],
                   mask = [mask_image], densepose = [densepose_image]\<rparr>)))))))))))))"

definition leffa_predict_w ::
    "('b, 'w) world_env \<Rightarrow> string \<Rightarrow> string \<Rightarrow> string \<Rightarrow> ('b, 'w, ndarray) io_w" where
  "leffa_predict_w env src_image_path ref_image_path control_type =
     bind_w (leffa_data_w env src_image_path ref_image_path control_type) (\<lambda>d.
     bind_w (call_w (Call_transform d)
               (or_raise_w BackendError (LeffaTransform_w env d))) (\<lambda>batch.
     bind_w
       (if control_type = ''virtual_tryon'' then
          call_w (Call_vt_inference batch)
            (or_raise_w BackendError (vt_inference_w env batch))
        else if control_type = ''pose_transfer'' then
          call_w (Call_pt_inference batch)
            (or_raise_w BackendError (pt_inference_w env batch))
        else pure_w (raise_io (UnboundLocalError ''inference''))) (\<lambda>output.
     bind_w (pure_w (no_call (getitem output ''generated_image''))) (\<lambda>generated.
     bind_w (pure_w (case generated of
                       [] \<Rightarrow> raise_io IndexError
                     | gen_image # _ \<Rightarrow> ret gen_image)) (\<lambda>gen_image.
     pure_w (ret (np_array gen_image)))))))"

text \<open>
  The files at the two paths, the Normalizer and the three predictors behave as
  deterministic functions when what they answer does not depend on the state: in every
  state they answer what the functions of \<open>env\<close> answer. Nothing is asked of the transform
  and of the generation backends, nor of the state a call leaves behind.
\<close>

definition answers_as :: "('b, 'w) world_env \<Rightarrow> 'b env \<Rightarrow> string \<Rightarrow> string \<Rightarrow> bool" where
  "answers_as wenv env src_image_path ref_image_path \<longleftrightarrow>
     (\<forall>w. fst (Image_open_w wenv src_image_path w) = Image_open env src_image_path) \<and>
     (\<forall>w. fst (Image_open_w wenv ref_image_path w) = Image_open env ref_image_path) \<and>
     (\<forall>file tw th w.
        fst (resize_and_center_w wenv file tw th w) = resize_and_center env file tw th) \<and>
     (\<forall>img hint w. fst (mask_predictor_w wenv img hint w) = mask_predictor env img hint) \<and>
     (\<forall>a w. fst (predict_iuv_w wenv a w) = predict_iuv env a) \<and>
     (\<forall>a w. fst (predict_seg_w wenv a w) = predict_seg env a)"

section \<open>The Image Normalizer\<close>

text \<open>
  Modelled from the spec: \<^verbatim>\<open>resize_and_center\<close> is imported from \<^verbatim>\<open>utils/utils.py\<close>, which is
  not among the sources. The spec, section 4.1: compute the scale factor that fits the
  image inside the target box without exceeding either dimension; resize using that scale;
  paste the resized image centered onto a blank, neutral-fill canvas of the target size.
  The interpolation is left open: \<open>resample img w h x y\<close> is the colour of pixel \<open>(x, y)\<close> of
  \<open>img\<close> resized to \<open>w\<close> by \<open>h\<close>, and \<open>fill\<close> is the grey level of the blank canvas.
\<close>

type_synonym resampler = "image \<Rightarrow> nat \<Rightarrow> nat \<Rightarrow> nat \<Rightarrow> nat \<Rightarrow> 8 word \<times> 8 word \<times> 8 word"

definition fit_scale :: "nat \<Rightarrow> nat \<Rightarrow> nat \<Rightarrow> nat \<Rightarrow> rat" where
  "fit_scale w h target_width target_height =
     min (of_nat target_width / of_nat w) (of_nat target_height / of_nat h)"

definition canvas_pixel ::
    "resampler \<Rightarrow> 8 word \<Rightarrow> image \<Rightarrow> nat \<Rightarrow> nat \<Rightarrow> nat \<Rightarrow> nat \<Rightarrow> nat \<Rightarrow> nat \<Rightarrow> 8 word list" where
  "canvas_pixel resample fill img new_width new_height left_edge top_edge x y =
     (if left_edge \<le> x \<and> x < left_edge + new_width \<and>
         top_edge \<le> y \<and> y < top_edge + new_height
      then (case resample img new_width new_height (x - left_edge) (y - top_edge) of
              (r, g, b) \<Rightarrow> [r, g, b])
      else [fill, fill, fill])"

definition centered_canvas :: "resampler \<Rightarrow> 8 word \<Rightarrow> image \<Rightarrow> nat \<Rightarrow> nat \<Rightarrow> image" where
  "centered_canvas resample fill img target_width target_height =
     (let scale = fit_scale (width img) (height img) target_width target_height;
          new_width = nat \<lfloor>of_nat (width img) * scale\<rfloor>;
          new_height = nat \<lfloor>of_nat (height img) * scale\<rfloor>;
          left_edge = (target_width - new_width) div 2;
          top_edge = (target_height - new_height) div 2
      in \<lparr>mode = RGB, width = target_width, height = target_height,
          pixels = concat (map (\<lambda>y. concat (map (\<lambda>x.
                     canvas_pixel resample fill img new_width new_height left_edge top_edge x y)
                     [0..<target_width])) [0..<target_height])\<rparr>)"

text \<open>
  Modelled from the spec: the input must be decodable as a colour image, and the one
  failure the spec gives the Normalizer is DecodeError. An image without a pixel has no
  scale factor and is refused with the undecodable ones.
\<close>

definition decodable :: "image \<Rightarrow> bool" where
  "decodable img \<longleftrightarrow> 0 < width img \<and> 0 < height img"

definition resize_and_center_spec ::
    "resampler \<Rightarrow> 8 word \<Rightarrow> image_file \<Rightarrow> nat \<Rightarrow> nat \<Rightarrow> error + image" where
  "resize_and_center_spec resample fill file target_width target_height =
     (case file of
        None \<Rightarrow> Inl DecodeError
      | Some img \<Rightarrow>
          if decodable img
          then Inr (centered_canvas resample fill img target_width target_height)
          else Inl DecodeError)"

section \<open>The contract of the mask predictor\<close>

text \<open>
  Modelled from the spec: the mask predictor is \<^verbatim>\<open>utils/garment_agnostic_mask_predictor.py\<close>,
  which is not among the sources. The spec's data model gives the mask it computes as a
  single-channel pixel grid of the canvas size: one band, and the width and the height of
  the image it was computed from.
\<close>

definition single_band_mask_predictor :: "'b env \<Rightarrow> bool" where
  "single_band_mask_predictor env \<longleftrightarrow>
     (\<forall>img hint out m.
        mask_predictor env img hint = Some out \<and> out ''mask'' = Some m \<longrightarrow>
        mode m = L \<and> width m = width img \<and> height m = height img)"

section \<open>A sample installation\<close>

text \<open>
  The inputs of the spec's scenario A, a person photo of 400 by 600 and a garment photo of
  1000 by 800, beside a file whose pixels do not decode and paths that do not open; a
  nearest-neighbour resampler; and stand-ins for the models: a mask of the size of its
  input, the array itself as the surface coordinates, its ones as the segmentation, and
  backends that hand back an image of the request.
\<close>

definition person :: image where
  "person = \<lparr>mode = RGBA, width = 400, height = 600, pixels = replicate (400 * 600 * 4) 7\<rparr>"

definition garment :: image where
  "garment = \<lparr>mode = RGB, width = 1000, height = 800, pixels = replicate (1000 * 800 * 3) 9\<rparr>"

fun first_rgb :: "mode \<Rightarrow> 8 word list \<Rightarrow> 8 word \<times> 8 word \<times> 8 word" where
  "first_rgb L (l # _) = (l, l, l)"
| "first_rgb LA (l # _) = (l, l, l)"
| "first_rgb RGB (r # g # b # _) = (r, g, b)"
| "first_rgb RGBA (r # g # b # _) = (r, g, b)"
| "first_rgb _ _ = (0, 0, 0)"

definition nearest :: resampler where
  "nearest img w h x y =
     first_rgb (mode img)
       (drop (((y * height img) div h * width img + (x * width img) div w) * bands (mode img))
          (pixels img))"

definition demo_open :: "string \<Rightarrow> image_file option" where
  "demo_open path =
     (if path = ''person.jpg'' then Some (Some person)
      else if path = ''garment.jpg'' then Some (Some garment)
      else if path = ''truncated.jpg'' then Some None
      else None)"

definition demo_mask_predictor :: "image \<Rightarrow> string \<Rightarrow> (string \<rightharpoonup> image) option" where
  "demo_mask_predictor img hint =
     Some [''mask'' \<mapsto> \<lparr>mode = L, width = width img, height = height img,
                         pixels = replicate (width img * height img) 0\<rparr>]"

definition demo_env :: "data env" where
  "demo_env =
     \<lparr>Image_open = demo_open,
      resize_and_center = resize_and_center_spec nearest 255,
      mask_predictor = demo_mask_predictor,
      predict_iuv = (\<lambda>a. Some a),
      predict_seg = (\<lambda>a. Some (ones_like a)),
      LeffaTransform = Some,
      vt_inference = (\<lambda>d. Some [''generated_image'' \<mapsto> src_image d]),
      pt_inference = (\<lambda>d. Some [''generated_image'' \<mapsto> ref_image d])\<rparr>"

text \<open>What the sample installation computes for the two tasks on the two photos.\<close>

definition demo_src :: image where
  "demo_src = centered_canvas nearest 255 person 768 1024"

definition demo_ref :: image where
  "demo_ref = centered_canvas nearest 255 garment 768 1024"

definition demo_mask :: image where
  "demo_mask = \<lparr>mode = L, width = 768, height = 1024, pixels = replicate (768 * 1024) 0\<rparr>"

definition demo_vt_trace :: "data event list" where
  "demo_vt_trace =
     [Call_open ''person.jpg'', Call_open ''garment.jpg'',
      Call_resize (Some person) 768 1024, Call_resize (Some garment) 768 1024,
      Call_mask_predictor (convert_RGB demo_src) ''upper'',
      Call_predict_iuv (np_array demo_src), Call_predict_seg (np_array demo_src)]"

definition demo_vt_data :: data where
  "demo_vt_data =
     \<lparr>src_image = [convert_RGB demo_src], ref_image = [demo_ref], mask = [demo_mask],
      densepose = [\<lparr>mode = RGB, width = 768, height = 1024,
                    pixels = replicate (768 * 1024 * 3) 1\<rparr>]\<rparr>"

definition demo_pt_trace :: "data event list" where
  "demo_pt_trace =
     [Call_open ''person.jpg'', Call_open ''garment.jpg'',
      Call_resize (Some person) 768 1024, Call_resize (Some garment) 768 1024,
      Call_predict_iuv (np_array demo_src), Call_predict_seg (np_array demo_src)]"

definition demo_pt_data :: data where
  "demo_pt_data =
     \<lparr>src_image = [demo_src], ref_image = [demo_ref],
      mask = [\<lparr>mode = RGB, width = 768, height = 1024,
               pixels = replicate (768 * 1024 * 3) 255\<rparr>],
      densepose = [demo_src]\<rparr>"

text \<open>
  The sample installation with a dense surface predictor that raises on \<^verbatim>\<open>predict_iuv\<close>,
  and with one whose \<^verbatim>\<open>predict_iuv\<close> returns a four-dimensional array.
\<close>

definition demo_env_iuv_raises :: "data env" where
  "demo_env_iuv_raises = demo_env\<lparr>predict_iuv := (\<lambda>a. None)\<rparr>"

definition demo_env_iuv_ill_shaped :: "data env" where
  "demo_env_iuv_ill_shaped =
     demo_env\<lparr>predict_iuv := (\<lambda>a. Some \<lparr>shape = [1, 1, 1, 1], elems = [0]\<rparr>)\<rparr>"

text \<open>
  The sample installation with models that keep a state, here the number of calls they
  have answered: the predictors count their calls and answer as before, and the backends
  answer only before the fourth call.
\<close>

definition demo_world_env :: "(data, nat) world_env" where
  "demo_world_env =
     \<lparr>Image_open_w = (\<lambda>path w. (demo_open path, w)),
      resize_and_center_w = (\<lambda>file tw th w. (resize_and_center_spec nearest 255 file tw th, w)),
      mask_predictor_w = (\<lambda>img hint w. (demo_mask_predictor img hint, Suc w)),
      predict_iuv_w = (\<lambda>a w. (Some a, Suc w)),
      predict_seg_w = (\<lambda>a w. (Some (ones_like a), Suc w)),
      LeffaTransform_w = (\<lambda>d w. (Some d, w)),
      vt_inference_w =
        (\<lambda>d w. (if w < 4 then Some [''generated_image'' \<mapsto> src_image d] else None, Suc w)),
      pt_inference_w =
        (\<lambda>d w. (if w < 4 then Some [''generated_image'' \<mapsto> ref_image d] else None, Suc w))\<rparr>"

text \<open>The same, with a \<^verbatim>\<open>predict_seg\<close> whose answer changes with the state.\<close>

definition demo_world_env_moody_seg :: "(data, nat) world_env" where
  "demo_world_env_moody_seg =
     demo_world_env\<lparr>predict_seg_w :=
       (\<lambda>a w. (Some (if w < 4 then ones_like a else \<lparr>shape = [1, 1], elems = [0]\<rparr>), Suc w))\<rparr>"

text \<open>The calls that reach a predictor or a generation backend.\<close>

fun is_model_call :: "'b event \<Rightarrow> bool" where
  "is_model_call (Call_mask_predictor img hint) = True"
| "is_model_call (Call_predict_iuv a) = True"
| "is_model_call (Call_predict_seg a) = True"
| "is_model_call (Call_vt_inference b) = True"
| "is_model_call (Call_pt_inference b) = True"
| "is_model_call (Call_open path) = False"
| "is_model_call (Call_resize file w h) = False"
| "is_model_call (Call_transform d) = False"

section \<open>Auxiliary facts\<close>

text \<open>
  The runs of \<^verbatim>\<open>leffa_data\<close> that assemble a dictionary, told apart by task: which
  collaborator answered what, the calls in their order, and the dictionary.
\<close>

lemmas io_defs =
  bind_io_def call_def no_call_def ret_def raise_io_def or_raise_def getitem_def local_var_def

lemma leffa_data_vt_iff:
  "leffa_data env s r ''virtual_tryon'' = (tr, Inr d) \<longleftrightarrow>
     (\<exists>f g src ref out m ia sa iuv seg.
        Image_open env s = Some f \<and> Image_open env r = Some g \<and>
        resize_and_center env f 768 1024 = Inr src \<and>
        resize_and_center env g 768 1024 = Inr ref \<and>
        mask_predictor env (convert_RGB src) ''upper'' = Some out \<and> out ''mask'' = Some m \<and>
        predict_iuv env (np_array src) = Some ia \<and> predict_seg env (np_array src) = Some sa \<and>
        fromarray ia = Inr iuv \<and> fromarray sa = Inr seg \<and>
        tr = [Call_open s, Call_open r, Call_resize f 768 1024, Call_resize g 768 1024,
              Call_mask_predictor (convert_RGB src) ''upper'',
              Call_predict_iuv (np_array src), Call_predict_seg (np_array src)] \<and>
        d = \<lparr>src_image = [convert_RGB src], ref_image = [ref], mask = [m], densepose = [seg]\<rparr>)"
  unfolding leffa_data_def io_defs
  by (auto simp: Let_def split: sum.splits option.splits prod.splits)

lemma leffa_data_pt_iff:
  "leffa_data env s r ''pose_transfer'' = (tr, Inr d) \<longleftrightarrow>
     (\<exists>f g src ref m ia sa iuv seg.
        Image_open env s = Some f \<and> Image_open env r = Some g \<and>
        resize_and_center env f 768 1024 = Inr src \<and>
        resize_and_center env g 768 1024 = Inr ref \<and>
        fromarray (times_scalar (ones_like (np_array src)) 255) = Inr m \<and>
        predict_iuv env (np_array src) = Some ia \<and> predict_seg env (np_array src) = Some sa \<and>
        fromarray ia = Inr iuv \<and> fromarray sa = Inr seg \<and>
        tr = [Call_open s, Call_open r, Call_resize f 768 1024, Call_resize g 768 1024,
              Call_predict_iuv (np_array src), Call_predict_seg (np_array src)] \<and>
        d = \<lparr>src_image = [src], ref_image = [ref], mask = [m], densepose = [iuv]\<rparr>)"
  unfolding leffa_data_def io_defs
  by (auto simp: Let_def split: sum.splits option.splits prod.splits)

text \<open>
  \<^verbatim>\<open>Image.fromarray\<close> reads an image back from any array shaped like the array of an
  image; the all-white array of line 55 is such an array.
\<close>

lemma fromarray_like_np_array:
  "shape a = shape (np_array img) \<Longrightarrow>
   fromarray a = Inr \<lparr>mode = mode img, width = width img, height = height img, pixels = elems a\<rparr>"
  by (cases "mode img") (simp_all add: fromarray_def np_array_def)

lemma fromarray_np_array: "fromarray (np_array img) = Inr img"
  by (simp add: fromarray_like_np_array) (simp add: np_array_def)

lemma white_array:
  "times_scalar (ones_like a) 255 = \<lparr>shape = shape a, elems = replicate (length (elems a)) 255\<rparr>"
  by (simp add: times_scalar_def ones_like_def map_replicate_const)

lemma fromarray_white:
  "fromarray (times_scalar (ones_like (np_array img)) 255) =
     Inr \<lparr>mode = mode img, width = width img, height = height img,
          pixels = replicate (length (pixels img)) 255\<rparr>"
  by (simp add: white_array fromarray_like_np_array) (simp add: np_array_def)

text \<open>
  The Normalizer of the spec: the canvas has three bytes for each pixel of the target, the
  resized image fits inside it, and DecodeError is its only failure.
\<close>

lemma length_concat_map_const:
  "(\<And>x. x \<in> set xs \<Longrightarrow> length (f x) = k) \<Longrightarrow> length (concat (map f xs)) = length xs * k"
  by (induction xs) simp_all

lemma centered_canvas_fields [simp]:
  "mode (centered_canvas rs fill img tw th) = RGB"
  "width (centered_canvas rs fill img tw th) = tw"
  "height (centered_canvas rs fill img tw th) = th"
  by (simp_all add: centered_canvas_def Let_def)

lemma length_canvas_pixel:
  "length (canvas_pixel rs fill img nw nh x0 y0 x y) = 3"
  by (simp add: canvas_pixel_def split: prod.splits)

lemma length_centered_canvas:
  "length (pixels (centered_canvas rs fill img tw th)) = tw * th * 3"
proof -
  have row: "length (concat (map (\<lambda>x. canvas_pixel rs fill img nw nh x0 y0 x y) [0..<tw])) =
      tw * 3" for nw nh x0 y0 y
    by (subst length_concat_map_const [where k = 3]) (simp_all add: length_canvas_pixel)
  have "length (pixels (centered_canvas rs fill img tw th)) = th * (tw * 3)"
    unfolding centered_canvas_def Let_def
    by (simp add: length_concat_map_const [where k = "tw * 3"] row)
  then show ?thesis by (simp add: mult.commute mult.left_commute)
qed

lemma resize_and_center_spec_Inr:
  "resize_and_center_spec rs fill file tw th = Inr out \<longleftrightarrow>
     (\<exists>img. file = Some img \<and> decodable img \<and> out = centered_canvas rs fill img tw th)"
  by (auto simp: resize_and_center_spec_def split: option.splits)

lemma resize_and_center_spec_Inl:
  "resize_and_center_spec rs fill file tw th = Inl e \<Longrightarrow> e = DecodeError"
  by (auto simp: resize_and_center_spec_def split: option.splits if_splits)

lemma fit_within:
  assumes "decodable img"
  shows "nat \<lfloor>of_nat (width img) * fit_scale (width img) (height img) tw th\<rfloor> \<le> tw"
    and "nat \<lfloor>of_nat (height img) * fit_scale (width img) (height img) tw th\<rfloor> \<le> th"
proof -
  let ?w = "of_nat (width img) :: rat" and ?h = "of_nat (height img) :: rat"
  have pos: "0 < ?w" "0 < ?h" using assms by (simp_all add: decodable_def)
  have "?w * fit_scale (width img) (height img) tw th \<le> ?w * (of_nat tw / ?w)"
    using pos by (intro mult_left_mono) (simp_all add: fit_scale_def)
  also have "\<dots> = of_nat tw" using pos by simp
  finally show "nat \<lfloor>?w * fit_scale (width img) (height img) tw th\<rfloor> \<le> tw"
    by (metis floor_mono floor_of_nat nat_int nat_mono)
  have "?h * fit_scale (width img) (height img) tw th \<le> ?h * (of_nat th / ?h)"
    using pos by (intro mult_left_mono) (simp_all add: fit_scale_def)
  also have "\<dots> = of_nat th" using pos by simp
  finally show "nat \<lfloor>?h * fit_scale (width img) (height img) tw th\<rfloor> \<le> th"
    by (metis floor_mono floor_of_nat nat_int nat_mono)
qed

text \<open>The runs of the sample installation on the two photos.\<close>

lemma demo_resize:
  "resize_and_center_spec nearest 255 (Some person) 768 1024 = Inr demo_src"
  "resize_and_center_spec nearest 255 (Some garment) 768 1024 = Inr demo_ref"
  by (simp_all add: resize_and_center_spec_def decodable_def person_def garment_def
        demo_src_def demo_ref_def)

lemma demo_src_fields:
  "mode demo_src = RGB" "width demo_src = 768" "height demo_src = 1024"
  "length (pixels demo_src) = 2359296"
  by (simp_all add: demo_src_def length_centered_canvas)

lemma demo_vt_run:
  "leffa_data demo_env ''person.jpg'' ''garment.jpg'' ''virtual_tryon'' =
     (demo_vt_trace, Inr demo_vt_data)"
  unfolding leffa_data_vt_iff
  apply (rule exI [of _ "Some person"])
  apply (rule exI [of _ "Some garment"])
  apply (rule exI [of _ demo_src])
  apply (rule exI [of _ demo_ref])
  apply (simp add: demo_env_def demo_open_def demo_resize demo_mask_predictor_def
         fromarray_np_array demo_vt_trace_def demo_vt_data_def demo_mask_def
         convert_RGB_def demo_src_fields)
  apply (simp add: fromarray_like_np_array [of _ demo_src] ones_like_def demo_src_fields)
  apply (simp add: np_array_def demo_src_fields map_replicate_const)
  done

lemma demo_pt_run:
  "leffa_data demo_env ''person.jpg'' ''garment.jpg'' ''pose_transfer'' =
     (demo_pt_trace, Inr demo_pt_data)"
  unfolding leffa_data_pt_iff
  apply (rule exI [of _ "Some person"])
  apply (rule exI [of _ "Some garment"])
  apply (rule exI [of _ demo_src])
  apply (rule exI [of _ demo_ref])
  apply (simp add: demo_env_def demo_open_def demo_resize
         fromarray_np_array demo_pt_trace_def demo_pt_data_def fromarray_white
         demo_src_fields)
  apply (simp add: fromarray_like_np_array [of _ demo_src] ones_like_def demo_src_fields)
  done

text \<open>
  A dictionary is assembled only for a recognized task, and no run for pose transfer calls
  the mask predictor.
\<close>

lemma leffa_data_Inr_valid:
  "leffa_data env s r ct = (tr, Inr d) \<Longrightarrow> ct = ''virtual_tryon'' \<or> ct = ''pose_transfer''"
  by (cases "ct = ''virtual_tryon'' \<or> ct = ''pose_transfer''")
     (auto simp: leffa_data_def raise_io_def)

lemma no_mask_predictor_on_pose_transfer:
  "Call_mask_predictor img hint \<notin> set (fst (leffa_predict env s r ''pose_transfer''))"
  unfolding leffa_predict_def leffa_data_def io_defs
  by (auto simp: Let_def split: sum.splits option.splits prod.splits list.splits)

section \<open>Rejected task selectors\<close>

text \<open>
  C1. A task selector other than \<^verbatim>\<open>"virtual_tryon"\<close> and \<^verbatim>\<open>"pose_transfer"\<close> makes
  \<^verbatim>\<open>leffa_predict\<close> fail with the assertion error of line 40 (the spec's
  InvalidTaskError), and the list of calls is empty: no image was opened, no predictor and
  no backend was invoked.
\<close>

theorem invalid_task_fails_first:
  assumes "control_type \<noteq> ''virtual_tryon''" and "control_type \<noteq> ''pose_transfer''"
  shows "leffa_predict env src_image_path ref_image_path control_type =
           ([], Inl (InvalidTaskError control_type))"
  using assms by (simp add: leffa_predict_def leffa_data_def bind_io_def raise_io_def)

theorem invalid_task_fails_first_witness:
  "''invalid_task'' \<noteq> ''virtual_tryon'' \<and> ''invalid_task'' \<noteq> ''pose_transfer'' \<and>
   leffa_predict demo_env ''person.jpg'' ''garment.jpg'' ''invalid_task'' =
     ([], Inl (InvalidTaskError ''invalid_task''))"
  using invalid_task_fails_first
          [of "''invalid_task''" demo_env "''person.jpg''" "''garment.jpg''"]
  by simp

section \<open>The size of the normalized images\<close>

text \<open>
  C2. The Normalizer (modelled from the spec) turns every decoded image, whatever its
  width and height, into an image of exactly the target width and height, with three
  bytes for each of its pixels; and in every dictionary that \<^verbatim>\<open>leffa_predict\<close> assembles
  with this Normalizer, the source and the reference image are 768 wide and 1024 high.
\<close>

theorem normalizer_output_size:
  "(decodable img \<longrightarrow>
      (\<exists>out. resize_and_center_spec resample fill (Some img) tw th = Inr out \<and>
             width out = tw \<and> height out = th \<and> length (pixels out) = tw * th * 3)) \<and>
   (resize_and_center env = resize_and_center_spec resample fill \<and>
    leffa_data env s r ct = (tr, Inr d) \<longrightarrow>
      (\<exists>src ref. src_image d = [src] \<and> ref_image d = [ref] \<and>
         width src = 768 \<and> height src = 1024 \<and> width ref = 768 \<and> height ref = 1024))"
proof (intro conjI impI)
  assume "decodable img"
  then show "\<exists>out. resize_and_center_spec resample fill (Some img) tw th = Inr out \<and>
      width out = tw \<and> height out = th \<and> length (pixels out) = tw * th * 3"
    by (simp add: resize_and_center_spec_def length_centered_canvas)
next
  assume a: "resize_and_center env = resize_and_center_spec resample fill \<and>
    leffa_data env s r ct = (tr, Inr d)"
  then consider "ct = ''virtual_tryon''" | "ct = ''pose_transfer''"
    using leffa_data_Inr_valid by blast
  then show "\<exists>src ref. src_image d = [src] \<and> ref_image d = [ref] \<and>
         width src = 768 \<and> height src = 1024 \<and> width ref = 768 \<and> height ref = 1024"
  proof cases
    case 1
    with a show ?thesis
      by (auto simp: leffa_data_vt_iff resize_and_center_spec_Inr convert_RGB_def)
  next
    case 2
    with a show ?thesis
      by (auto simp: leffa_data_pt_iff resize_and_center_spec_Inr)
  qed
qed

theorem normalizer_output_size_witness:
  "decodable person \<and>
   resize_and_center demo_env = resize_and_center_spec nearest 255 \<and>
   leffa_data demo_env ''person.jpg'' ''garment.jpg'' ''virtual_tryon'' =
     (demo_vt_trace, Inr demo_vt_data) \<and>
   (\<exists>out. resize_and_center_spec nearest 255 (Some person) 768 1024 = Inr out \<and>
          width out = 768 \<and> height out = 1024 \<and> length (pixels out) = 768 * 1024 * 3) \<and>
   (\<exists>src ref. src_image demo_vt_data = [src] \<and> ref_image demo_vt_data = [ref] \<and>
      width src = 768 \<and> height src = 1024 \<and> width ref = 768 \<and> height ref = 1024)"
proof -
  have h1: "decodable person" by (simp add: decodable_def person_def)
  have h2: "resize_and_center demo_env = resize_and_center_spec nearest 255"
    by (simp add: demo_env_def)
  note h3 = demo_vt_run
  show ?thesis
    using h1 h2 h3
      normalizer_output_size [of person nearest 255 768 1024 demo_env "''person.jpg''"
        "''garment.jpg''" "''virtual_tryon''" demo_vt_trace demo_vt_data]
    by simp
qed

section \<open>The region mask\<close>

text \<open>
  C3. In every dictionary assembled for virtual try-on, the mask is the \<^verbatim>\<open>"mask"\<close> entry of
  what the mask predictor returned for the normalized source image (converted to RGB by
  line 52) and the hint \<^verbatim>\<open>"upper"\<close>, and the predictor was called with these arguments.
  It is never the all-white image that line 55 would synthesize from the same source
  array: with the Normalizer of the spec that image has three bands, and the mask of a
  mask predictor that keeps its contract has one.
\<close>

theorem tryon_mask_is_predictor_output:
  assumes "leffa_data env s r ''virtual_tryon'' = (tr, Inr d)"
  shows "\<exists>f src out m.
           Image_open env s = Some f \<and> resize_and_center env f 768 1024 = Inr src \<and>
           mask_predictor env (convert_RGB src) ''upper'' = Some out \<and> out ''mask'' = Some m \<and>
           Call_mask_predictor (convert_RGB src) ''upper'' \<in> set tr \<and>
           mask d = [m] \<and>
           (resize_and_center env = resize_and_center_spec resample fill \<and>
            single_band_mask_predictor env \<longrightarrow>
              fromarray (times_scalar (ones_like (np_array src)) 255) \<noteq> Inr m \<and>
              map Inr (mask d) \<noteq> [fromarray (times_scalar (ones_like (np_array src)) 255)])"
proof -
  from assms obtain f g src ref out m ia sa iuv seg where *:
    "Image_open env s = Some f" "resize_and_center env f 768 1024 = Inr src"
    "mask_predictor env (convert_RGB src) ''upper'' = Some out" "out ''mask'' = Some m"
    "tr = [Call_open s, Call_open r, Call_resize f 768 1024, Call_resize g 768 1024,
           Call_mask_predictor (convert_RGB src) ''upper'',
           Call_predict_iuv (np_array src), Call_predict_seg (np_array src)]"
    "d = \<lparr>src_image = [convert_RGB src], ref_image = [ref], mask = [m], densepose = [seg]\<rparr>"
    unfolding leffa_data_vt_iff by blast
  have "fromarray (times_scalar (ones_like (np_array src)) 255) \<noteq> Inr m"
    if norm: "resize_and_center env = resize_and_center_spec resample fill"
      and contract: "single_band_mask_predictor env"
  proof -
    from *(2) norm have "mode src = RGB" by (auto simp: resize_and_center_spec_Inr)
    moreover from contract *(3,4) have "mode m = L"
      unfolding single_band_mask_predictor_def by blast
    ultimately show ?thesis by (auto simp: fromarray_white)
  qed
  with * show ?thesis by auto
qed

theorem tryon_mask_is_predictor_output_witness:
  "leffa_data demo_env ''person.jpg'' ''garment.jpg'' ''virtual_tryon'' =
     (demo_vt_trace, Inr demo_vt_data) \<and>
   resize_and_center demo_env = resize_and_center_spec nearest 255 \<and>
   single_band_mask_predictor demo_env \<and>
   (\<exists>f src out m.
       Image_open demo_env ''person.jpg'' = Some f \<and>
       resize_and_center demo_env f 768 1024 = Inr src \<and>
       mask_predictor demo_env (convert_RGB src) ''upper'' = Some out \<and> out ''mask'' = Some m \<and>
       Call_mask_predictor (convert_RGB src) ''upper'' \<in> set demo_vt_trace \<and>
       mask demo_vt_data = [m] \<and>
       fromarray (times_scalar (ones_like (np_array src)) 255) \<noteq> Inr m \<and>
       map Inr (mask demo_vt_data) \<noteq> [fromarray (times_scalar (ones_like (np_array src)) 255)])"
proof -
  have norm: "resize_and_center demo_env = resize_and_center_spec nearest 255"
    by (simp add: demo_env_def)
  have contract: "single_band_mask_predictor demo_env"
    by (auto simp: single_band_mask_predictor_def demo_env_def demo_mask_predictor_def)
  from tryon_mask_is_predictor_output [OF demo_vt_run, of nearest 255] norm contract demo_vt_run
  show ?thesis by blast
qed

text \<open>
  C4. On the pose-transfer path the mask predictor is never called, whatever the run does;
  and in every dictionary assembled for pose transfer, the mask has the width and the
  height of the normalized source image and as many bytes, each of them 255.
\<close>

theorem pose_transfer_mask_all_white:
  "(\<forall>img hint. Call_mask_predictor img hint \<notin> set (fst (leffa_predict env s r ''pose_transfer''))) \<and>
   (leffa_data env s r ''pose_transfer'' = (tr, Inr d) \<longrightarrow>
      (\<exists>f src m.
          Image_open env s = Some f \<and> resize_and_center env f 768 1024 = Inr src \<and>
          mask d = [m] \<and> width m = width src \<and> height m = height src \<and>
          pixels m = replicate (length (pixels src)) 255))"
proof (intro conjI impI allI)
  fix img hint
  show "Call_mask_predictor img hint \<notin> set (fst (leffa_predict env s r ''pose_transfer''))"
    by (rule no_mask_predictor_on_pose_transfer)
next
  assume "leffa_data env s r ''pose_transfer'' = (tr, Inr d)"
  then show "\<exists>f src m.
          Image_open env s = Some f \<and> resize_and_center env f 768 1024 = Inr src \<and>
          mask d = [m] \<and> width m = width src \<and> height m = height src \<and>
          pixels m = replicate (length (pixels src)) 255"
    by (auto simp: leffa_data_pt_iff fromarray_white)
qed

theorem pose_transfer_mask_all_white_witness:
  "leffa_data demo_env ''person.jpg'' ''garment.jpg'' ''pose_transfer'' =
     (demo_pt_trace, Inr demo_pt_data) \<and>
   (\<forall>img hint. Call_mask_predictor img hint \<notin>
      set (fst (leffa_predict demo_env ''person.jpg'' ''garment.jpg'' ''pose_transfer''))) \<and>
   (\<exists>f src m.
       Image_open demo_env ''person.jpg'' = Some f \<and>
       resize_and_center demo_env f 768 1024 = Inr src \<and>
       mask demo_pt_data = [m] \<and> width m = width src \<and> height m = height src \<and>
       pixels m = replicate (length (pixels src)) 255)"
  using demo_pt_run
    pose_transfer_mask_all_white [of demo_env "''person.jpg''" "''garment.jpg''"
      demo_pt_trace demo_pt_data]
  by blast

section \<open>The dense map\<close>

text \<open>
  C5. In every assembled dictionary the dense map is the image of an output of the dense
  surface predictor on the array of the normalized source image: of \<^verbatim>\<open>predict_seg\<close> for
  virtual try-on, of \<^verbatim>\<open>predict_iuv\<close> for pose transfer.
\<close>

theorem dense_map_selected_by_task:
  assumes "leffa_data env s r ct = (tr, Inr d)"
  shows "\<exists>f src a img.
           Image_open env s = Some f \<and> resize_and_center env f 768 1024 = Inr src \<and>
           (ct = ''virtual_tryon'' \<and> predict_seg env (np_array src) = Some a \<or>
            ct = ''pose_transfer'' \<and> predict_iuv env (np_array src) = Some a) \<and>
           fromarray a = Inr img \<and> densepose d = [img]"
proof -
  consider "ct = ''virtual_tryon''" | "ct = ''pose_transfer''"
    using assms leffa_data_Inr_valid by blast
  then show ?thesis
  proof cases
    case 1
    with assms show ?thesis by (auto simp: leffa_data_vt_iff)
  next
    case 2
    with assms show ?thesis by (auto simp: leffa_data_pt_iff)
  qed
qed

theorem dense_map_selected_by_task_witness:
  "leffa_data demo_env ''person.jpg'' ''garment.jpg'' ''virtual_tryon'' =
     (demo_vt_trace, Inr demo_vt_data) \<and>
   (\<exists>f src a img.
       Image_open demo_env ''person.jpg'' = Some f \<and>
       resize_and_center demo_env f 768 1024 = Inr src \<and>
       (''virtual_tryon'' = ''virtual_tryon'' \<and> predict_seg demo_env (np_array src) = Some a \<or>
        ''virtual_tryon'' = ''pose_transfer'' \<and> predict_iuv demo_env (np_array src) = Some a) \<and>
       fromarray a = Inr img \<and> densepose demo_vt_data = [img])"
  using demo_vt_run dense_map_selected_by_task [OF demo_vt_run]
  by blast

section \<open>The shape of the region mask\<close>

text \<open>
  C6, as stated, fails: line 55 builds the all-white mask with \<^verbatim>\<open>np.ones_like\<close> from the
  array of the source image, so it has the bands of that image. For the sample
  installation and the pose-transfer task the mask of the assembled dictionary has three
  bands, not one.
\<close>

theorem pose_transfer_mask_has_three_bands:
  "map_sum id (map (bands \<circ> mode) \<circ> mask)
     (snd (leffa_data demo_env ''person.jpg'' ''garment.jpg'' ''pose_transfer'')) = Inr [3]"
  by (simp add: demo_pt_run demo_pt_data_def)

text \<open>
  C6, amended. With the Normalizer of the spec, and a mask predictor that keeps its
  contract (a single-band mask of the size of the image it is given), the mask of every assembled
  dictionary is 768 wide and 1024 high; it has one band for virtual try-on and the three
  bands of the source image for pose transfer.
\<close>

theorem mask_canvas:
  assumes norm: "resize_and_center env = resize_and_center_spec resample fill"
    and contract: "single_band_mask_predictor env"
    and run: "leffa_data env s r ct = (tr, Inr d)"
  shows "\<exists>m. mask d = [m] \<and> width m = 768 \<and> height m = 1024 \<and>
             bands (mode m) = (if ct = ''pose_transfer'' then 3 else 1)"
proof -
  consider "ct = ''virtual_tryon''" | "ct = ''pose_transfer''"
    using run leffa_data_Inr_valid by blast
  then show ?thesis
  proof cases
    case 1
    with run obtain f src out m where
      src: "resize_and_center env f 768 1024 = Inr src"
      and out: "mask_predictor env (convert_RGB src) ''upper'' = Some out" "out ''mask'' = Some m"
      and m: "mask d = [m]"
      by (auto simp: leffa_data_vt_iff)
    from contract out have "mode m = L" "width m = width (convert_RGB src)"
      "height m = height (convert_RGB src)"
      unfolding single_band_mask_predictor_def by blast+
    moreover from src norm have "width src = 768" "height src = 1024"
      by (auto simp: resize_and_center_spec_Inr)
    ultimately show ?thesis using m 1 by (simp add: convert_RGB_def)
  next
    case 2
    with run norm show ?thesis
      by (auto simp: leffa_data_pt_iff fromarray_white resize_and_center_spec_Inr)
  qed
qed

theorem mask_canvas_witness:
  "resize_and_center demo_env = resize_and_center_spec nearest 255 \<and>
   single_band_mask_predictor demo_env \<and>
   leffa_data demo_env ''person.jpg'' ''garment.jpg'' ''virtual_tryon'' =
     (demo_vt_trace, Inr demo_vt_data) \<and>
   leffa_data demo_env ''person.jpg'' ''garment.jpg'' ''pose_transfer'' =
     (demo_pt_trace, Inr demo_pt_data) \<and>
   (\<exists>m. mask demo_vt_data = [m] \<and> width m = 768 \<and> height m = 1024 \<and>
        bands (mode m) = (if ''virtual_tryon'' = ''pose_transfer'' then 3 else 1)) \<and>
   (\<exists>m. mask demo_pt_data = [m] \<and> width m = 768 \<and> height m = 1024 \<and>
        bands (mode m) = (if ''pose_transfer'' = ''pose_transfer'' then 3 else 1))"
proof -
  have norm: "resize_and_center demo_env = resize_and_center_spec nearest 255"
    by (simp add: demo_env_def)
  have contract: "single_band_mask_predictor demo_env"
    by (auto simp: single_band_mask_predictor_def demo_env_def demo_mask_predictor_def)
  from mask_canvas [OF norm contract demo_vt_run] mask_canvas [OF norm contract demo_pt_run]
    norm contract demo_vt_run demo_pt_run
  show ?thesis by blast
qed

section \<open>Unreadable images\<close>

text \<open>
  The calls of \<^verbatim>\<open>leffa_predict\<close> begin with those of \<^verbatim>\<open>leffa_data\<close>, an exception of
  \<^verbatim>\<open>leffa_data\<close> is the exception of \<^verbatim>\<open>leffa_predict\<close>, and the four places where a run
  can stop before the mask step.
\<close>

lemma fst_bind_io: "\<exists>rest. fst (bind_io m f) = fst m @ rest"
  by (auto simp: bind_io_def split: prod.splits sum.splits)

lemma leffa_predict_extends_leffa_data:
  "set (fst (leffa_data env s r ct)) \<subseteq> set (fst (leffa_predict env s r ct))"
proof -
  obtain rest where "fst (leffa_predict env s r ct) = fst (leffa_data env s r ct) @ rest"
    unfolding leffa_predict_def using fst_bind_io by blast
  then show ?thesis by simp
qed

lemma leffa_predict_decode_error:
  assumes "leffa_data env s r ct = (tr, Inl e)"
  shows "leffa_predict env s r ct = (tr, Inl e)"
  using assms by (simp add: leffa_predict_def bind_io_def)


lemma open_src_fails:
  assumes "ct = ''virtual_tryon'' \<or> ct = ''pose_transfer''" and "Image_open env s = None"
  shows "leffa_data env s r ct = ([Call_open s], Inl DecodeError)"
  using assms by (auto simp: leffa_data_def io_defs)

lemma open_ref_fails:
  assumes "ct = ''virtual_tryon'' \<or> ct = ''pose_transfer''"
    and "Image_open env s = Some f" and "Image_open env r = None"
  shows "leffa_data env s r ct = ([Call_open s, Call_open r], Inl DecodeError)"
  using assms by (auto simp: leffa_data_def io_defs)

lemma resize_src_fails:
  assumes "ct = ''virtual_tryon'' \<or> ct = ''pose_transfer''"
    and "Image_open env s = Some f" and "Image_open env r = Some g"
    and "resize_and_center env f 768 1024 = Inl e"
  shows "leffa_data env s r ct = ([Call_open s, Call_open r, Call_resize f 768 1024], Inl e)"
  using assms by (auto simp: leffa_data_def io_defs)

lemma resize_ref_fails:
  assumes "ct = ''virtual_tryon'' \<or> ct = ''pose_transfer''"
    and "Image_open env s = Some f" and "Image_open env r = Some g"
    and "resize_and_center env f 768 1024 = Inr src"
    and "resize_and_center env g 768 1024 = Inl e"
  shows "leffa_data env s r ct =
           ([Call_open s, Call_open r, Call_resize f 768 1024, Call_resize g 768 1024], Inl e)"
  using assms by (auto simp: leffa_data_def io_defs)


text \<open>
  C7. With a recognized task, when the source or the reference path does not open, or,
  under the Normalizer of the spec, opens to pixels that do not decode, \<^verbatim>\<open>leffa_predict\<close>
  fails with DecodeError, and none of the calls made up to there is a call of the mask
  predictor, of the dense surface predictor or of a generation backend.
\<close>

theorem unreadable_image_fails_before_models:
  assumes valid: "ct = ''virtual_tryon'' \<or> ct = ''pose_transfer''"
    and bad: "Image_open env s = None \<or> Image_open env r = None \<or>
              resize_and_center env = resize_and_center_spec resample fill \<and>
              (Image_open env s = Some None \<or> Image_open env r = Some None)"
  shows "\<exists>tr. leffa_predict env s r ct = (tr, Inl DecodeError) \<and> filter is_model_call tr = []"
proof -
  have "\<exists>tr. leffa_data env s r ct = (tr, Inl DecodeError) \<and> filter is_model_call tr = []"
  proof (cases "Image_open env s")
    case None
    from open_src_fails [OF valid None] show ?thesis by simp
  next
    case f: (Some f)
    show ?thesis
    proof (cases "Image_open env r")
      case None
      from open_ref_fails [OF valid f None] show ?thesis by simp
    next
      case g: (Some g)
      with f bad have norm: "resize_and_center env = resize_and_center_spec resample fill"
        and lazy: "f = None \<or> g = None"
        by auto
      show ?thesis
      proof (cases "resize_and_center env f 768 1024")
        case (Inl e)
        with norm have "e = DecodeError" by (simp add: resize_and_center_spec_Inl)
        with resize_src_fails [OF valid f g Inl] show ?thesis by simp
      next
        case (Inr src)
        with norm lazy have "g = None" by (auto simp: resize_and_center_spec_Inr)
        with norm have "resize_and_center env g 768 1024 = Inl DecodeError"
          by (simp add: resize_and_center_spec_def)
        from resize_ref_fails [OF valid f g Inr this] show ?thesis by simp
      qed
    qed
  qed
  then show ?thesis using leffa_predict_decode_error by blast
qed

theorem unreadable_image_fails_before_models_witness:
  "(''pose_transfer'' = ''virtual_tryon'' \<or> ''pose_transfer'' = ''pose_transfer'') \<and>
   (Image_open demo_env ''person.jpg'' = None \<or> Image_open demo_env ''truncated.jpg'' = None \<or>
    resize_and_center demo_env = resize_and_center_spec nearest 255 \<and>
    (Image_open demo_env ''person.jpg'' = Some None \<or>
     Image_open demo_env ''truncated.jpg'' = Some None)) \<and>
   (\<exists>tr. leffa_predict demo_env ''person.jpg'' ''truncated.jpg'' ''pose_transfer'' =
           (tr, Inl DecodeError) \<and> filter is_model_call tr = [])"
proof -
  have valid: "''pose_transfer'' = ''virtual_tryon'' \<or> ''pose_transfer'' = ''pose_transfer''"
    by simp
  have bad: "Image_open demo_env ''person.jpg'' = None \<or>
    Image_open demo_env ''truncated.jpg'' = None \<or>
    resize_and_center demo_env = resize_and_center_spec nearest 255 \<and>
    (Image_open demo_env ''person.jpg'' = Some None \<or>
     Image_open demo_env ''truncated.jpg'' = Some None)"
    by (simp add: demo_env_def demo_open_def)
  from unreadable_image_fails_before_models [OF valid bad] valid bad
  show ?thesis by blast
qed

section \<open>Repeated invocations\<close>

text \<open>What a computation with state gives, read off its parts.\<close>

lemma fst_pure_w: "fst (pure_w m w) = m"
  by (simp add: pure_w_def)

lemma fst_call_w: "fst (call_w ev p w) = call ev (fst (p w))"
  by (simp add: call_w_def call_def split: prod.splits)

lemma fst_or_raise_w: "fst (or_raise_w e p w) = or_raise e (fst (p w))"
  by (simp add: or_raise_w_def split: prod.splits)

lemma fst_bind_w:
  "fst (bind_w m f w) = bind_io (fst (m w)) (\<lambda>x. fst (f x (snd (m w))))"
  by (simp add: bind_w_def bind_io_def split: prod.splits sum.splits)

lemma fst_case_prod_w: "fst ((case p of (a, b) \<Rightarrow> f a b) w) = (case p of (a, b) \<Rightarrow> fst (f a b w))"
  by (simp split: prod.splits)

text \<open>
  The sample installation with state: the dictionary is assembled in three calls of the
  models; the backend answers the first invocation and fails the second.
\<close>

lemmas w_defs = bind_w_def call_w_def or_raise_w_def pure_w_def

lemma demo_vt_run_w:
  "leffa_data_w demo_world_env ''person.jpg'' ''garment.jpg'' ''virtual_tryon'' w =
     ((demo_vt_trace, Inr demo_vt_data), Suc (Suc (Suc w)))"
  unfolding leffa_data_w_def demo_world_env_def
  apply (simp add: w_defs io_defs demo_open_def demo_resize demo_mask_predictor_def Let_def)
  apply (simp add: fromarray_np_array fromarray_like_np_array [of _ demo_src] ones_like_def
      demo_src_fields np_array_def [of demo_src] map_replicate_const
      demo_vt_trace_def demo_vt_data_def demo_mask_def convert_RGB_def)
  done


lemma demo_vt_predict_w_first:
  "leffa_predict_w demo_world_env ''person.jpg'' ''garment.jpg'' ''virtual_tryon'' 0 =
     ((demo_vt_trace @ [Call_transform demo_vt_data, Call_vt_inference demo_vt_data],
       Inr (np_array (convert_RGB demo_src))), 4)"
  unfolding leffa_predict_w_def
  apply (subst bind_w_def)
  apply (simp add: demo_vt_run_w)
  apply (simp add: w_defs io_defs demo_world_env_def demo_vt_data_def)
  done

lemma demo_vt_predict_w_second:
  "fst (leffa_predict_w demo_world_env ''person.jpg'' ''garment.jpg'' ''virtual_tryon'' 4) =
     (demo_vt_trace @ [Call_transform demo_vt_data, Call_vt_inference demo_vt_data],
      Inl BackendError)"
  unfolding leffa_predict_w_def
  apply (subst bind_w_def)
  apply (simp add: demo_vt_run_w)
  apply (simp add: w_defs io_defs demo_world_env_def demo_vt_data_def)
  done

text \<open>
  The condition on the predictors is needed: with a \<^verbatim>\<open>predict_seg\<close> whose answer changes
  with the state, the second invocation assembles another dictionary than the first.
\<close>

lemma demo_moody_run_w:
  "leffa_data_w demo_world_env_moody_seg ''person.jpg'' ''garment.jpg'' ''virtual_tryon'' w =
     ((demo_vt_trace,
       Inr (if w < 2 then demo_vt_data
            else demo_vt_data\<lparr>densepose :=
                   [\<lparr>mode = L, width = 1, height = 1, pixels = [0]\<rparr>]\<rparr>)),
      Suc (Suc (Suc w)))"
  unfolding leffa_data_w_def demo_world_env_moody_seg_def demo_world_env_def
  apply (simp add: w_defs io_defs demo_open_def demo_resize demo_mask_predictor_def Let_def)
  apply (simp add: fromarray_np_array fromarray_like_np_array [of _ demo_src] ones_like_def
      demo_src_fields np_array_def [of demo_src] map_replicate_const fromarray_def
      demo_vt_trace_def demo_vt_data_def demo_mask_def convert_RGB_def)
  done

lemma demo_moody_predict_w_state:
  "snd (leffa_predict_w demo_world_env_moody_seg ''person.jpg'' ''garment.jpg''
          ''virtual_tryon'' 0) = 4"
  unfolding leffa_predict_w_def
  apply (subst bind_w_def)
  apply (simp add: demo_moody_run_w)
  apply (simp add: w_defs io_defs demo_world_env_moody_seg_def demo_world_env_def
      demo_vt_data_def)
  done

lemma state_dependent_predictor_changes_request:
  "fst (leffa_data_w demo_world_env_moody_seg ''person.jpg'' ''garment.jpg'' ''virtual_tryon''
          (snd (leffa_predict_w demo_world_env_moody_seg ''person.jpg'' ''garment.jpg''
                  ''virtual_tryon'' 0))) \<noteq>
   fst (leffa_data_w demo_world_env_moody_seg ''person.jpg'' ''garment.jpg'' ''virtual_tryon'' 0)"
  by (simp add: demo_moody_predict_w_state demo_moody_run_w demo_vt_data_def)

text \<open>
  C8. Let the files at the two paths, the Normalizer, the mask predictor and the dense
  surface predictor behave as deterministic functions: what they answer does not depend on
  the state of the models. Then a second invocation, started in the state that a first,
  complete invocation with the same paths and task has left, runs lines 40 to 75 as the
  first did: the same calls, the same exception if one ends them, and otherwise the same
  dictionary, source image, reference image, mask and dense map alike. The same holds
  for any two states, and the run is the one of \<open>leffa_data\<close>. Nothing is assumed of the
  transform and of the generation backends, whose answers may differ between the two
  invocations.
\<close>

theorem requests_identical_across_invocations:
  assumes "answers_as wenv env s r"
  shows "fst (leffa_data_w wenv s r ct (snd (leffa_predict_w wenv s r ct w))) =
           fst (leffa_data_w wenv s r ct w) \<and>
         fst (leffa_data_w wenv s r ct w1) = fst (leffa_data_w wenv s r ct w2) \<and>
         fst (leffa_data_w wenv s r ct w) = leffa_data env s r ct"
proof -
  from assms have answers:
    "\<And>w. fst (Image_open_w wenv s w) = Image_open env s"
    "\<And>w. fst (Image_open_w wenv r w) = Image_open env r"
    "\<And>file tw th w.
       fst (resize_and_center_w wenv file tw th w) = resize_and_center env file tw th"
    "\<And>img hint w. fst (mask_predictor_w wenv img hint w) = mask_predictor env img hint"
    "\<And>a w. fst (predict_iuv_w wenv a w) = predict_iuv env a"
    "\<And>a w. fst (predict_seg_w wenv a w) = predict_seg env a"
    unfolding answers_as_def by blast+
  have run: "fst (leffa_data_w wenv s r ct w') = leffa_data env s r ct" for w'
    unfolding leffa_data_w_def leffa_data_def Let_def
    by (simp add: fst_pure_w fst_call_w fst_or_raise_w fst_bind_w fst_case_prod_w answers
          ret_def no_call_def raise_io_def)
  show ?thesis by (simp add: run)
qed

theorem requests_identical_across_invocations_witness:
  "answers_as demo_world_env demo_env ''person.jpg'' ''garment.jpg'' \<and>
   fst (leffa_data_w demo_world_env ''person.jpg'' ''garment.jpg'' ''virtual_tryon''
          (snd (leffa_predict_w demo_world_env ''person.jpg'' ''garment.jpg''
                  ''virtual_tryon'' 0))) =
     fst (leffa_data_w demo_world_env ''person.jpg'' ''garment.jpg'' ''virtual_tryon'' 0) \<and>
   fst (leffa_data_w demo_world_env ''person.jpg'' ''garment.jpg'' ''virtual_tryon'' 0) =
     (demo_vt_trace, Inr demo_vt_data) \<and>
   snd (leffa_predict_w demo_world_env ''person.jpg'' ''garment.jpg'' ''virtual_tryon'' 0) = 4 \<and>
   snd (fst (leffa_predict_w demo_world_env ''person.jpg'' ''garment.jpg'' ''virtual_tryon'' 0)) \<noteq>
     snd (fst (leffa_predict_w demo_world_env ''person.jpg'' ''garment.jpg'' ''virtual_tryon'' 4))"
proof -
  have a: "answers_as demo_world_env demo_env ''person.jpg'' ''garment.jpg''"
    by (simp add: answers_as_def demo_world_env_def demo_env_def)
  from requests_identical_across_invocations [OF a, of "''virtual_tryon''" 0 0 0]
  have "fst (leffa_data_w demo_world_env ''person.jpg'' ''garment.jpg'' ''virtual_tryon''
          (snd (leffa_predict_w demo_world_env ''person.jpg'' ''garment.jpg''
                  ''virtual_tryon'' 0))) =
     fst (leffa_data_w demo_world_env ''person.jpg'' ''garment.jpg'' ''virtual_tryon'' 0)"
    by blast
  with a show ?thesis
    by (simp add: demo_vt_run_w demo_vt_predict_w_first demo_vt_predict_w_second)
qed

section \<open>Where the conversion to RGB is applied\<close>

text \<open>The conversion changes an image that has an alpha band.\<close>

lemma convert_RGB_drops_alpha:
  "convert_RGB \<lparr>mode = RGBA, width = 2, height = 1, pixels = [1, 2, 3, 4, 5, 6, 7, 8]\<rparr> =
     \<lparr>mode = RGB, width = 2, height = 1, pixels = [1, 2, 3, 5, 6, 7]\<rparr>"
  by (simp add: convert_RGB_def)

text \<open>
  C9. In a run that assembles a dictionary for pose transfer, the source image of the
  dictionary and the array given to the dense surface predictor are the Normalizer's output
  as it is; \<^verbatim>\<open>convert_RGB\<close> is applied nowhere. In a run for virtual try-on, the source
  image of the dictionary and the image given to the mask predictor are the converted
  image, while \<^verbatim>\<open>predict_iuv\<close> and \<^verbatim>\<open>predict_seg\<close> are given the array taken at line 47,
  before the conversion. The calls listed are all the calls of the run.
\<close>

theorem rgb_conversion_only_on_tryon:
  "(leffa_data env s r ''pose_transfer'' = (tr_pt, Inr d_pt) \<longrightarrow>
      (\<exists>f g src ref.
          Image_open env s = Some f \<and> Image_open env r = Some g \<and>
          resize_and_center env f 768 1024 = Inr src \<and>
          resize_and_center env g 768 1024 = Inr ref \<and>
          src_image d_pt = [src] \<and> ref_image d_pt = [ref] \<and>
          tr_pt = [Call_open s, Call_open r, Call_resize f 768 1024, Call_resize g 768 1024,
                   Call_predict_iuv (np_array src), Call_predict_seg (np_array src)])) \<and>
   (leffa_data env s r ''virtual_tryon'' = (tr_vt, Inr d_vt) \<longrightarrow>
      (\<exists>f g src ref.
          Image_open env s = Some f \<and> Image_open env r = Some g \<and>
          resize_and_center env f 768 1024 = Inr src \<and>
          resize_and_center env g 768 1024 = Inr ref \<and>
          src_image d_vt = [convert_RGB src] \<and> ref_image d_vt = [ref] \<and>
          tr_vt = [Call_open s, Call_open r, Call_resize f 768 1024, Call_resize g 768 1024,
                   Call_mask_predictor (convert_RGB src) ''upper'',
                   Call_predict_iuv (np_array src), Call_predict_seg (np_array src)]))"
  by (auto simp: leffa_data_pt_iff leffa_data_vt_iff)

theorem rgb_conversion_only_on_tryon_witness:
  "leffa_data demo_env ''person.jpg'' ''garment.jpg'' ''pose_transfer'' =
     (demo_pt_trace, Inr demo_pt_data) \<and>
   leffa_data demo_env ''person.jpg'' ''garment.jpg'' ''virtual_tryon'' =
     (demo_vt_trace, Inr demo_vt_data) \<and>
   (\<exists>f g src ref.
       Image_open demo_env ''person.jpg'' = Some f \<and>
       Image_open demo_env ''garment.jpg'' = Some g \<and>
       resize_and_center demo_env f 768 1024 = Inr src \<and>
       resize_and_center demo_env g 768 1024 = Inr ref \<and>
       src_image demo_pt_data = [src] \<and> ref_image demo_pt_data = [ref] \<and>
       demo_pt_trace =
         [Call_open ''person.jpg'', Call_open ''garment.jpg'',
          Call_resize f 768 1024, Call_resize g 768 1024,
          Call_predict_iuv (np_array src), Call_predict_seg (np_array src)]) \<and>
   (\<exists>f g src ref.
       Image_open demo_env ''person.jpg'' = Some f \<and>
       Image_open demo_env ''garment.jpg'' = Some g \<and>
       resize_and_center demo_env f 768 1024 = Inr src \<and>
       resize_and_center demo_env g 768 1024 = Inr ref \<and>
       src_image demo_vt_data = [convert_RGB src] \<and> ref_image demo_vt_data = [ref] \<and>
       demo_vt_trace =
         [Call_open ''person.jpg'', Call_open ''garment.jpg'',
          Call_resize f 768 1024, Call_resize g 768 1024,
          Call_mask_predictor (convert_RGB src) ''upper'',
          Call_predict_iuv (np_array src), Call_predict_seg (np_array src)])"
  using demo_pt_run demo_vt_run
    rgb_conversion_only_on_tryon [of demo_env "''person.jpg''" "''garment.jpg''"
      demo_pt_trace demo_pt_data demo_vt_trace demo_vt_data]
  by blast


section \<open>Both dense maps are computed\<close>

text \<open>The calls of a run that reaches line 59, for each task.\<close>

lemma dense_calls_tryon:
  assumes "Image_open env s = Some f" and "Image_open env r = Some g"
    and "resize_and_center env f 768 1024 = Inr src"
    and "resize_and_center env g 768 1024 = Inr ref"
    and "mask_predictor env (convert_RGB src) ''upper'' = Some out" and "out ''mask'' = Some m"
    and "predict_iuv env (np_array src) = Some ia"
  shows "fst (leffa_data env s r ''virtual_tryon'') =
           [Call_open s, Call_open r, Call_resize f 768 1024, Call_resize g 768 1024,
            Call_mask_predictor (convert_RGB src) ''upper'',
            Call_predict_iuv (np_array src), Call_predict_seg (np_array src)]"
  using assms unfolding leffa_data_def io_defs
  by (simp add: Let_def split: sum.splits option.splits prod.splits)

lemma dense_calls_pose_transfer:
  assumes "Image_open env s = Some f" and "Image_open env r = Some g"
    and "resize_and_center env f 768 1024 = Inr src"
    and "resize_and_center env g 768 1024 = Inr ref"
    and "predict_iuv env (np_array src) = Some ia"
  shows "fst (leffa_data env s r ''pose_transfer'') =
           [Call_open s, Call_open r, Call_resize f 768 1024, Call_resize g 768 1024,
            Call_predict_iuv (np_array src), Call_predict_seg (np_array src)]"
  using assms unfolding leffa_data_def io_defs
  by (simp add: Let_def fromarray_white split: sum.splits option.splits prod.splits)

text \<open>The sample runs when the predictor of the map that is not chosen is exchanged.\<close>

lemma demo_vt_run_other_iuv:
  "leffa_data (demo_env\<lparr>predict_iuv := predict_seg demo_env\<rparr>)
     ''person.jpg'' ''garment.jpg'' ''virtual_tryon'' = (demo_vt_trace, Inr demo_vt_data)"
  unfolding leffa_data_vt_iff
  apply (rule exI [of _ "Some person"])
  apply (rule exI [of _ "Some garment"])
  apply (rule exI [of _ demo_src])
  apply (rule exI [of _ demo_ref])
  apply (simp add: demo_env_def demo_open_def demo_resize demo_mask_predictor_def
         demo_vt_trace_def demo_vt_data_def demo_mask_def
         convert_RGB_def demo_src_fields)
  apply (simp add: fromarray_like_np_array [of _ demo_src] ones_like_def demo_src_fields)
  apply (simp add: np_array_def demo_src_fields map_replicate_const)
  done

lemma demo_pt_run_other_seg:
  "leffa_data (demo_env\<lparr>predict_seg := predict_iuv demo_env\<rparr>)
     ''person.jpg'' ''garment.jpg'' ''pose_transfer'' = (demo_pt_trace, Inr demo_pt_data)"
  unfolding leffa_data_pt_iff
  apply (rule exI [of _ "Some person"])
  apply (rule exI [of _ "Some garment"])
  apply (rule exI [of _ demo_src])
  apply (rule exI [of _ demo_ref])
  apply (simp add: demo_env_def demo_open_def demo_resize
         fromarray_np_array demo_pt_trace_def demo_pt_data_def fromarray_white
         demo_src_fields)
  done

text \<open>
  C10, as stated, fails: a valid task and decodable images are not enough. When
  \<^verbatim>\<open>predict_iuv\<close> raises, line 59 is not reached and \<^verbatim>\<open>predict_seg\<close> is never called; and
  a map that the task does not choose is still handed to \<^verbatim>\<open>Image.fromarray\<close> at line 60,
  so an ill-shaped \<^verbatim>\<open>predict_iuv\<close> output ends a virtual try-on run that would not have
  used it.
\<close>

theorem dense_maps_not_always_computed:
  "leffa_predict demo_env_iuv_raises ''person.jpg'' ''garment.jpg'' ''pose_transfer'' =
     ([Call_open ''person.jpg'', Call_open ''garment.jpg'',
       Call_resize (Some person) 768 1024, Call_resize (Some garment) 768 1024,
       Call_predict_iuv (np_array demo_src)],
      Inl BackendError) \<and>
   leffa_predict demo_env_iuv_ill_shaped ''person.jpg'' ''garment.jpg'' ''virtual_tryon'' =
     (demo_vt_trace, Inl TypeError)"
proof
  show "leffa_predict demo_env_iuv_raises ''person.jpg'' ''garment.jpg'' ''pose_transfer'' =
     ([Call_open ''person.jpg'', Call_open ''garment.jpg'',
       Call_resize (Some person) 768 1024, Call_resize (Some garment) 768 1024,
       Call_predict_iuv (np_array demo_src)],
      Inl BackendError)"
    unfolding leffa_predict_def leffa_data_def demo_env_iuv_raises_def demo_env_def
    by (simp add: io_defs demo_open_def demo_resize Let_def fromarray_white)
  show "leffa_predict demo_env_iuv_ill_shaped ''person.jpg'' ''garment.jpg'' ''virtual_tryon'' =
     (demo_vt_trace, Inl TypeError)"
    unfolding leffa_predict_def leffa_data_def demo_env_iuv_ill_shaped_def demo_env_def
    by (simp add: io_defs demo_open_def demo_resize Let_def demo_mask_predictor_def
          fromarray_def demo_vt_trace_def)
qed

text \<open>
  C10, amended. For either task, when the images open and are normalized, the mask step
  does not raise and \<^verbatim>\<open>predict_iuv\<close> returns, \<^verbatim>\<open>leffa_predict\<close> calls both \<^verbatim>\<open>predict_iuv\<close> and
  \<^verbatim>\<open>predict_seg\<close> on the array of the normalized source image. The map that the task does
  not choose has no part in a dictionary that is assembled: with another \<^verbatim>\<open>predict_iuv\<close>
  the dictionary assembled for virtual try-on, if one is assembled, is the same, and with
  another \<^verbatim>\<open>predict_seg\<close> so is the one assembled for pose transfer.
\<close>

theorem both_dense_maps_computed:
  "((ct = ''virtual_tryon'' \<and>
       (\<exists>out m. mask_predictor env (convert_RGB src) ''upper'' = Some out \<and> out ''mask'' = Some m) \<or>
     ct = ''pose_transfer'') \<and>
    Image_open env s = Some f \<and> Image_open env r = Some g \<and>
    resize_and_center env f 768 1024 = Inr src \<and>
    resize_and_center env g 768 1024 = Inr ref \<and>
    predict_iuv env (np_array src) = Some ia \<longrightarrow>
      Call_predict_iuv (np_array src) \<in> set (fst (leffa_predict env s r ct)) \<and>
      Call_predict_seg (np_array src) \<in> set (fst (leffa_predict env s r ct))) \<and>
   (leffa_data env s r ''virtual_tryon'' = (tr1, Inr d1) \<and>
    leffa_data (env\<lparr>predict_iuv := p\<rparr>) s r ''virtual_tryon'' = (tr2, Inr d2) \<longrightarrow> d2 = d1) \<and>
   (leffa_data env s r ''pose_transfer'' = (tr3, Inr d3) \<and>
    leffa_data (env\<lparr>predict_seg := q\<rparr>) s r ''pose_transfer'' = (tr4, Inr d4) \<longrightarrow> d4 = d3)"
proof (intro conjI impI)
  assume a: "(ct = ''virtual_tryon'' \<and>
       (\<exists>out m. mask_predictor env (convert_RGB src) ''upper'' = Some out \<and> out ''mask'' = Some m) \<or>
     ct = ''pose_transfer'') \<and>
    Image_open env s = Some f \<and> Image_open env r = Some g \<and>
    resize_and_center env f 768 1024 = Inr src \<and>
    resize_and_center env g 768 1024 = Inr ref \<and>
    predict_iuv env (np_array src) = Some ia"
  have "Call_predict_iuv (np_array src) \<in> set (fst (leffa_data env s r ct)) \<and>
        Call_predict_seg (np_array src) \<in> set (fst (leffa_data env s r ct))"
  proof (cases "ct = ''pose_transfer''")
    case True
    with a dense_calls_pose_transfer [of env s f r g src ref ia] show ?thesis by simp
  next
    case False
    with a obtain out m where
      "mask_predictor env (convert_RGB src) ''upper'' = Some out" "out ''mask'' = Some m"
      and "ct = ''virtual_tryon''"
      by blast
    with a dense_calls_tryon [of env s f r g src ref out m ia] show ?thesis by simp
  qed
  with leffa_predict_extends_leffa_data [of env s r ct]
  show "Call_predict_iuv (np_array src) \<in> set (fst (leffa_predict env s r ct))"
    and "Call_predict_seg (np_array src) \<in> set (fst (leffa_predict env s r ct))"
    by blast+
next
  assume "leffa_data env s r ''virtual_tryon'' = (tr1, Inr d1) \<and>
    leffa_data (env\<lparr>predict_iuv := p\<rparr>) s r ''virtual_tryon'' = (tr2, Inr d2)"
  then show "d2 = d1" by (auto simp: leffa_data_vt_iff)
next
  assume "leffa_data env s r ''pose_transfer'' = (tr3, Inr d3) \<and>
    leffa_data (env\<lparr>predict_seg := q\<rparr>) s r ''pose_transfer'' = (tr4, Inr d4)"
  then show "d4 = d3" by (auto simp: leffa_data_pt_iff)
qed


theorem both_dense_maps_computed_witness:
  "(\<exists>out m. mask_predictor demo_env (convert_RGB demo_src) ''upper'' = Some out \<and>
            out ''mask'' = Some m) \<and>
   Image_open demo_env ''person.jpg'' = Some (Some person) \<and>
   Image_open demo_env ''garment.jpg'' = Some (Some garment) \<and>
   resize_and_center demo_env (Some person) 768 1024 = Inr demo_src \<and>
   resize_and_center demo_env (Some garment) 768 1024 = Inr demo_ref \<and>
   predict_iuv demo_env (np_array demo_src) = Some (np_array demo_src) \<and>
   leffa_data demo_env ''person.jpg'' ''garment.jpg'' ''virtual_tryon'' =
     (demo_vt_trace, Inr demo_vt_data) \<and>
   leffa_data (demo_env\<lparr>predict_iuv := predict_seg demo_env\<rparr>)
     ''person.jpg'' ''garment.jpg'' ''virtual_tryon'' = (demo_vt_trace, Inr demo_vt_data) \<and>
   leffa_data demo_env ''person.jpg'' ''garment.jpg'' ''pose_transfer'' =
     (demo_pt_trace, Inr demo_pt_data) \<and>
   leffa_data (demo_env\<lparr>predict_seg := predict_iuv demo_env\<rparr>)
     ''person.jpg'' ''garment.jpg'' ''pose_transfer'' = (demo_pt_trace, Inr demo_pt_data) \<and>
   Call_predict_iuv (np_array demo_src) \<in>
     set (fst (leffa_predict demo_env ''person.jpg'' ''garment.jpg'' ''virtual_tryon'')) \<and>
   Call_predict_seg (np_array demo_src) \<in>
     set (fst (leffa_predict demo_env ''person.jpg'' ''garment.jpg'' ''virtual_tryon''))"
proof -
  have h:
    "\<exists>out m. mask_predictor demo_env (convert_RGB demo_src) ''upper'' = Some out \<and>
             out ''mask'' = Some m"
    "Image_open demo_env ''person.jpg'' = Some (Some person)"
    "Image_open demo_env ''garment.jpg'' = Some (Some garment)"
    "resize_and_center demo_env (Some person) 768 1024 = Inr demo_src"
    "resize_and_center demo_env (Some garment) 768 1024 = Inr demo_ref"
    "predict_iuv demo_env (np_array demo_src) = Some (np_array demo_src)"
    by (simp_all add: demo_env_def demo_open_def demo_resize demo_mask_predictor_def)
  from h demo_vt_run demo_vt_run_other_iuv demo_pt_run demo_pt_run_other_seg
    both_dense_maps_computed [of "''virtual_tryon''" demo_env demo_src "''person.jpg''"
      "Some person" "''garment.jpg''" "Some garment" demo_ref "np_array demo_src"
      demo_vt_trace demo_vt_data "predict_seg demo_env" demo_vt_trace demo_vt_data
      demo_pt_trace demo_pt_data "predict_iuv demo_env" demo_pt_trace demo_pt_data]
  show ?thesis by simp
qed

end
